theory Spec2Isabelle
  imports Main "HOL-Library.Sublist" "HOL-Library.Multiset"
begin

section \<open>Economics research digest: scoring, ranking and rendering\<close>

text \<open>
  A shallow embedding of \<^verbatim>\<open>econ_research_digest.py\<close>: the \<^verbatim>\<open>Paper\<close> record,
  \<^verbatim>\<open>calculate_relevance\<close>, \<^verbatim>\<open>filter_and_rank\<close>, \<^verbatim>\<open>format_paper\<close> and
  \<^verbatim>\<open>generate_markdown\<close>.

  A Python \<^verbatim>\<open>str\<close> is a \<^typ>\<open>string\<close>. On ASCII text a \<^typ>\<open>char\<close> is one Python
  character, so \<^verbatim>\<open>len\<close>, slicing and \<^verbatim>\<open>lower\<close> agree with \<^const>\<open>length\<close>,
  \<^const>\<open>take\<close> and the model's \<open>lower\<close>; the model is exact for ASCII titles, abstracts
  and keywords. The few characters of the source's literals beyond ASCII are written as
  the bytes the source file holds for them.
\<close>

subsection \<open>Strings\<close>

text \<open>\<^verbatim>\<open>sub in s\<close> on two strings: \<^verbatim>\<open>sub\<close> occurs in \<^verbatim>\<open>s\<close> as a contiguous run.\<close>

definition str_in :: "string \<Rightarrow> string \<Rightarrow> bool" where
  "str_in sub s = sublist sub s"

text \<open>\<^verbatim>\<open>str.lower()\<close>: the letters A to Z go to a to z, every other character stays.\<close>

definition lower_char :: "char \<Rightarrow> char" where
  "lower_char c =
     (let n = (of_char c :: nat) in if 65 \<le> n \<and> n \<le> 90 then char_of (n + 32) else c)"

definition lower :: "string \<Rightarrow> string" where
  "lower s = map lower_char s"

subsection \<open>Configuration\<close>

definition PRIORITY_KEYWORDS :: "string list" where
  "PRIORITY_KEYWORDS =
    [''price'', ''pricing'', ''markup'', ''profit'', ''corporate'', ''concentration'',
     ''monopoly'', ''antitrust'', ''market power'', ''oligopoly'', ''merger'',
     ''gouging'', ''inflation'',
     ''housing'', ''rent'', ''mortgage'', ''landlord'', ''eviction'', ''tenant'',
     ''homeowner'', ''affordability'', ''real estate'', ''financialization'',
     ''wage'', ''labor'', ''worker'', ''employment'', ''unemployment'', ''union'',
     ''minimum wage'', ''gig economy'', ''collective bargaining'', ''strike'',
     ''inequality'', ''wealth'', ''income distribution'', ''poverty'', ''mobility'',
     ''racial'', ''gender gap'', ''disparity'', ''progressive'',
     ''consumer'', ''household'', ''debt'', ''credit'', ''family'', ''childcare'',
     ''healthcare cost'', ''food price'', ''grocery'',
     ''tax'', ''fiscal'', ''subsidy'', ''regulation'', ''enforcement'', ''antitrust'',
     ''competition policy'', ''industrial policy'']"

subsection \<open>Data structures\<close>

text \<open>The fields of a \<^verbatim>\<open>datetime\<close> that the program builds and prints.\<close>

record datetime =
  year :: nat
  month :: nat
  day :: nat
  hour :: nat
  minute :: nat
  second :: nat

record Paper =
  title :: string
  authors :: string
  source :: string
  url :: string
  abstract :: string
  date :: "datetime option"
  relevance_score :: int
  matched_keywords :: "string list"
  key_finding :: string

subsection \<open>Keyword matching\<close>

text \<open>
  The loop of \<^verbatim>\<open>calculate_relevance\<close> over the keyword list. Its state is the list
  \<^verbatim>\<open>matches\<close> and the field \<^verbatim>\<open>paper.relevance_score\<close>, which the loop reads and
  adds to; \<open>text\<close> is the lowercased search text and \<open>ttl\<close> the paper's title.
\<close>

fun relevance_loop ::
  "string \<Rightarrow> string \<Rightarrow> string list \<Rightarrow> string list \<times> int \<Rightarrow> string list \<times> int" where
  "relevance_loop text ttl [] (matches, score) = (matches, score)"
| "relevance_loop text ttl (keyword # rest) (matches, score) =
     (if str_in (lower keyword) text
      then relevance_loop text ttl rest
             (matches @ [keyword],
              if str_in (lower keyword) (lower ttl) then score + 3 else score + 1)
      else relevance_loop text ttl rest (matches, score))"

text \<open>
  \<^verbatim>\<open>calculate_relevance\<close>, with the module's keyword list as its first argument.
  \<^verbatim>\<open>list(set(matches))\<close> holds every element of \<^verbatim>\<open>matches\<close> once, in an order
  Python does not fix; \<^const>\<open>remdups\<close> is one such order, and the theorems below only
  speak of the elements.
\<close>

definition calculate_relevance :: "string list \<Rightarrow> Paper \<Rightarrow> Paper" where
  "calculate_relevance keywords paper =
     (let text = lower (title paper @ '' '' @ abstract paper);
          (matches, score) =
             relevance_loop text (title paper) keywords ([], relevance_score paper)
      in paper\<lparr>relevance_score := score, matched_keywords := remdups matches\<rparr>)"

text \<open>
  The scoring rule in the specification's words: what one keyword contributes to a
  paper with the given title and abstract.
\<close>

definition spec_contribution :: "string \<Rightarrow> string \<Rightarrow> string \<Rightarrow> int" where
  "spec_contribution ttl abst keyword =
     (if str_in (lower keyword) (lower ttl) then 3
      else if str_in (lower keyword) (lower (ttl @ '' '' @ abst)) then 1
      else 0)"

definition spec_matched :: "string \<Rightarrow> string \<Rightarrow> string \<Rightarrow> bool" where
  "spec_matched ttl abst keyword =
     (str_in (lower keyword) (lower ttl) \<or> str_in (lower keyword) (lower (ttl @ '' '' @ abst)))"

subsection \<open>Filtering and ranking\<close>

text \<open>
  \<^verbatim>\<open>sorted(xs, key=key, reverse=True)\<close>. CPython reverses the list, sorts it with its
  stable sort and reverses the result, which keeps equal keys in their input order;
  \<^const>\<open>sort_key\<close> is a stable (insertion) sort.
\<close>

definition sorted_reverse :: "('a \<Rightarrow> 'k::linorder) \<Rightarrow> 'a list \<Rightarrow> 'a list" where
  "sorted_reverse key xs = rev (sort_key key (rev xs))"

definition filter_and_rank :: "Paper list \<Rightarrow> int \<Rightarrow> Paper list" where
  "filter_and_rank papers min_score =
     (let relevant = filter (\<lambda>p. relevance_score p \<ge> min_score) papers
      in sorted_reverse relevance_score relevant)"

subsection \<open>Printing numbers and dates\<close>

abbreviation NL :: string where
  "NL \<equiv> [CHR 0x0A]"

definition digit_char :: "nat \<Rightarrow> char" where
  "digit_char n = char_of (48 + n)"

text \<open>\<^verbatim>\<open>str(n)\<close> of a natural number (a \<^verbatim>\<open>len\<close>, a count): its decimal digits.\<close>

fun str_nat :: "nat \<Rightarrow> string" where
  "str_nat n = (if n < 10 then [digit_char n] else str_nat (n div 10) @ [digit_char (n mod 10)])"

declare str_nat.simps [simp del]

definition str_int :: "int \<Rightarrow> string" where
  "str_int i = (if i < 0 then ''-'' @ str_nat (nat (- i)) else str_nat (nat i))"

definition month_names :: "string list" where
  "month_names =
     [''January'', ''February'', ''March'', ''April'', ''May'', ''June'', ''July'',
      ''August'', ''September'', ''October'', ''November'', ''December'']"

text \<open>
  \<^verbatim>\<open>%B\<close> and \<^verbatim>\<open>%b\<close> in the C locale. A \<^verbatim>\<open>datetime\<close> has a month from 1 to 12; the
  model prints nothing for any other number.
\<close>

definition month_name :: "nat \<Rightarrow> string" where
  "month_name m = (if 1 \<le> m \<and> m \<le> 12 then month_names ! (m - 1) else [])"

definition month_abbr :: "nat \<Rightarrow> string" where
  "month_abbr m = take 3 (month_name m)"

text \<open>\<^verbatim>\<open>%d\<close>: the day of the month, two digits.\<close>

definition two_digits :: "nat \<Rightarrow> string" where
  "two_digits n = [digit_char (n div 10 mod 10), digit_char (n mod 10)]"

text \<open>
  \<^verbatim>\<open>strftime("%B %d, %Y")\<close> and \<^verbatim>\<open>strftime("%b %d")\<close>; \<^verbatim>\<open>%Y\<close> prints the year in
  decimal, four digits from the year 1000 on.
\<close>

definition strftime_B_d_Y :: "datetime \<Rightarrow> string" where
  "strftime_B_d_Y d = month_name (month d) @ '' '' @ two_digits (day d) @ '', '' @ str_nat (year d)"

definition strftime_b_d :: "datetime \<Rightarrow> string" where
  "strftime_b_d d = month_abbr (month d) @ '' '' @ two_digits (day d)"

subsection \<open>Formatting one paper\<close>

text \<open>\<^verbatim>\<open>sep.join(xs)\<close>.\<close>

fun str_join :: "string \<Rightarrow> string list \<Rightarrow> string" where
  "str_join sep [] = []"
| "str_join sep [x] = x"
| "str_join sep (x # y # ys) = x @ sep @ str_join sep (y # ys)"

text \<open>
  \<^verbatim>\<open>s.rsplit(sep, 1)[0]\<close> for a one-character separator: what stands before the last
  \<^verbatim>\<open>sep\<close> of \<^verbatim>\<open>s\<close>, and all of \<^verbatim>\<open>s\<close> when it holds no \<^verbatim>\<open>sep\<close>.
\<close>

definition rsplit1_head :: "char \<Rightarrow> string \<Rightarrow> string" where
  "rsplit1_head sep s =
     (if sep \<in> set s then rev (tl (dropWhile (\<lambda>c. c \<noteq> sep) (rev s))) else s)"

text \<open>Lines 424 to 426 of the source: the abstract as \<^verbatim>\<open>format_paper\<close> shows it.\<close>

definition abstract_excerpt :: "string \<Rightarrow> string" where
  "abstract_excerpt a =
     (let abstract = take 300 a
      in if length a > 300 then rsplit1_head CHR '' '' abstract @ ''...'' else abstract)"

text \<open>The first two lines of a block: title and link, then source, authors and date.\<close>

definition paper_heading :: "Paper \<Rightarrow> string" where
  "paper_heading paper =
     (let date_str = (case date paper of Some d \<Rightarrow> strftime_b_d d | None \<Rightarrow> ''Recent'')
      in ''**['' @ title paper @ '']('' @ url paper @ '')**'' @ NL @
         ''*'' @ source paper @ ''* | '' @ take 60 (authors paper) @
         (if length (authors paper) > 60 then ''...'' else []) @ '' | '' @ date_str @ NL)"

definition key_finding_label :: string where
  "key_finding_label =
     ''**'' @ [CHR 0xC4, CHR 0x9F, CHR 0xC5, CHR 0xB8, CHR 0xE2, CHR 0x80, CHR 0x9C, CHR 0xC5, CHR 0x92]
       @ '' Key finding:** ''"

definition format_paper :: "Paper \<Rightarrow> string" where
  "format_paper paper =
     (let keywords = (if matched_keywords paper \<noteq> []
                      then str_join '', '' (take 5 (matched_keywords paper)) else []);
          output = paper_heading paper;
          output = (if key_finding paper \<noteq> []
                    then output @ key_finding_label @ key_finding paper @ NL else output);
          output = (if abstract paper \<noteq> [] \<and> key_finding paper = []
                    then output @ ''> '' @ abstract_excerpt (abstract paper) @ NL else output);
          output = (if keywords \<noteq> []
                    then output @ ''**Keywords:** '' @ keywords @ NL else output)
      in output @ NL)"

subsection \<open>The report\<close>

definition SOURCES :: "(string \<times> string \<times> string) list" where
  "SOURCES =
     [(''VoxEU/CEPR'', ''https://cepr.org/rss/voxeu/columns.xml'', ''rss''),
      (''Equitable Growth'', ''https://equitablegrowth.org/feed/'', ''rss''),
      (''EPI'', ''https://www.epi.org/feed/'', ''rss''),
      (''Fed Board Working Papers'', ''https://www.federalreserve.gov/feeds/feds.xml'', ''rss''),
      (''NY Fed Research'', ''https://libertystreeteconomics.newyorkfed.org/feed/'', ''rss''),
      (''SF Fed Economic Letters'',
       ''https://www.frbsf.org/research-and-insights/publications/economic-letter/rss-feed/'',
       ''rss''),
      (''Brookings Economics'', ''https://www.brookings.edu/feed/?topic=economy'', ''rss''),
      (''SSRN Economics'',
       ''https://papers.ssrn.com/sol3/Jeljour_results.cfm?form_name=journalBrowse&journal_id=918&Network=no&lim=false&npage=1'',
       ''scrape_ssrn'')]"

definition report_header :: "datetime \<Rightarrow> int \<Rightarrow> string" where
  "report_header now days =
     ''# Economics Research Digest'' @ NL @
     ''**Week of '' @ strftime_B_d_Y now @ ''** | Papers from last '' @ str_int days @ '' days'' @ NL @
     NL @ ''---'' @ NL @ NL @ ''## Top Papers by Relevance'' @ NL @ NL"

definition no_papers_line :: string where
  "no_papers_line =
     ''*No highly relevant papers found this period. Consider expanding keywords or timeframe.*'' @ NL"

text \<open>The three tiers of \<^verbatim>\<open>generate_markdown\<close>.\<close>

definition high_relevance :: "Paper list \<Rightarrow> Paper list" where
  "high_relevance papers = filter (\<lambda>p. relevance_score p \<ge> 5) papers"

definition medium_relevance :: "Paper list \<Rightarrow> Paper list" where
  "medium_relevance papers = filter (\<lambda>p. 2 \<le> relevance_score p \<and> relevance_score p < 5) papers"

definition other_relevant :: "Paper list \<Rightarrow> Paper list" where
  "other_relevant papers = filter (\<lambda>p. 1 \<le> relevance_score p \<and> relevance_score p < 2) papers"

definition high_heading :: string where
  "high_heading =
     ''### '' @ [CHR 0xC4, CHR 0x9F, CHR 0xC5, CHR 0xB8, CHR 0xE2, CHR 0x80, CHR 0x9D, CHR 0xC2, CHR 0xB4]
       @ '' High Priority'' @ NL @ NL"

definition medium_heading :: string where
  "medium_heading =
     NL @ ''### '' @ [CHR 0xC4, CHR 0x9F, CHR 0xC5, CHR 0xB8, CHR 0xC5, CHR 0xB8, CHR 0xC2, CHR 0xA1]
       @ '' Worth Reading'' @ NL @ NL"

definition other_heading :: string where
  "other_heading =
     NL @ ''### '' @ [CHR 0xC4, CHR 0x9F, CHR 0xC5, CHR 0xB8, CHR 0xC5, CHR 0xB8, CHR 0xC2, CHR 0xA2]
       @ '' Also Relevant'' @ NL @ NL"

text \<open>The loop \<^verbatim>\<open>for p in tier[:10]: output += format_paper(p)\<close>, on the sliced list.\<close>

fun append_papers :: "string \<Rightarrow> Paper list \<Rightarrow> string" where
  "append_papers output [] = output"
| "append_papers output (p # ps) = append_papers (output @ format_paper p) ps"

text \<open>The statistic "Total papers scanned" as line 387 computes it.\<close>

definition total_scanned :: "Paper list \<Rightarrow> nat" where
  "total_scanned papers = length papers + length (filter (\<lambda>p. relevance_score p = 0) papers)"

definition summary_stats :: "Paper list \<Rightarrow> string" where
  "summary_stats papers =
     NL @ ''---'' @ NL @ NL @ ''## Summary'' @ NL @ NL @
     ''- **Total papers scanned:** '' @ str_nat (total_scanned papers) @ NL @
     ''- **Relevant papers found:** '' @ str_nat (length papers) @ NL @
     ''- **High priority:** '' @ str_nat (length (high_relevance papers)) @ NL @
     ''- **Sources checked:** '' @ str_nat (length SOURCES) @ NL @
     NL @ ''### Keywords Matched This Week'' @ NL"

text \<open>
  \<^verbatim>\<open>keyword_counts[kw] = keyword_counts.get(kw, 0) + 1\<close> on a dict, which keeps its keys
  in the order they were first stored: an association list in that order.
\<close>

fun count_keyword :: "(string \<times> nat) list \<Rightarrow> string \<Rightarrow> (string \<times> nat) list" where
  "count_keyword [] kw = [(kw, 1)]"
| "count_keyword ((k, c) # rest) kw =
     (if k = kw then (k, c + 1) # rest else (k, c) # count_keyword rest kw)"

definition top_keywords :: "Paper list \<Rightarrow> (string \<times> nat) list" where
  "top_keywords papers =
     (let all_keywords = concat (map matched_keywords papers);
          keyword_counts = foldl count_keyword [] all_keywords
      in take 15 (sorted_reverse snd keyword_counts))"

fun append_keyword_lines :: "string \<Rightarrow> (string \<times> nat) list \<Rightarrow> string" where
  "append_keyword_lines output [] = output"
| "append_keyword_lines output ((kw, cnt) # rest) =
     append_keyword_lines (output @ ''- '' @ kw @ '': '' @ str_nat cnt @ '' papers'' @ NL) rest"

text \<open>
  \<^verbatim>\<open>generate_markdown\<close>. The clock \<^verbatim>\<open>datetime.now()\<close> is the argument \<open>now\<close>.
\<close>

definition generate_markdown :: "datetime \<Rightarrow> Paper list \<Rightarrow> int \<Rightarrow> string" where
  "generate_markdown now papers days =
     (let output = report_header now days
      in if papers = [] then output @ no_papers_line
         else
           let output = (if high_relevance papers \<noteq> []
                         then append_papers (output @ high_heading) (take 10 (high_relevance papers))
                         else output);
               output = (if medium_relevance papers \<noteq> []
                         then append_papers (output @ medium_heading) (take 10 (medium_relevance papers))
                         else output);
               output = (if other_relevant papers \<noteq> []
                         then append_papers (output @ other_heading) (take 10 (other_relevant papers))
                         else output);
               output = output @ summary_stats papers
           in append_keyword_lines output (top_keywords papers))"

subsection \<open>Example inputs\<close>

definition rent_paper :: Paper where
  "rent_paper =
     \<lparr>title = ''Rent Control and Housing Markets'', authors = [], source = [], url = [],
      abstract = [], date = None, relevance_score = 0, matched_keywords = [], key_finding = []\<rparr>"

definition rent_only :: Paper where
  "rent_only =
     \<lparr>title = ''Rent'', authors = [], source = [], url = [],
      abstract = [], date = None, relevance_score = 0, matched_keywords = [], key_finding = []\<rparr>"

definition antitrust_paper :: Paper where
  "antitrust_paper =
     \<lparr>title = ''Antitrust'', authors = [], source = [], url = [],
      abstract = [], date = None, relevance_score = 0, matched_keywords = [], key_finding = []\<rparr>"

definition scored :: "string \<Rightarrow> int \<Rightarrow> Paper" where
  "scored t n =
     \<lparr>title = t, authors = [], source = [], url = [],
      abstract = [], date = None, relevance_score = n, matched_keywords = [], key_finding = []\<rparr>"

definition tier_example :: "Paper list" where
  "tier_example = [scored ''a'' 7, scored ''b'' 3, scored ''c'' 3, scored ''d'' 1]"

text \<open>
  Cutting \<open>s\<close> after its first \<open>n\<close> characters splits a word: the characters on both
  sides of the cut are not spaces.
\<close>

definition cut_mid_word :: "string \<Rightarrow> nat \<Rightarrow> bool" where
  "cut_mid_word s n = (0 < n \<and> n < length s \<and> s ! (n - 1) \<noteq> CHR '' '' \<and> s ! n \<noteq> CHR '' '')"

text \<open>The keywords line that ends a block of \<^verbatim>\<open>format_paper\<close>, empty when it is left out.\<close>

definition keywords_line :: "Paper \<Rightarrow> string" where
  "keywords_line paper =
     (let keywords = (if matched_keywords paper \<noteq> []
                      then str_join '', '' (take 5 (matched_keywords paper)) else [])
      in if keywords \<noteq> [] then ''**Keywords:** '' @ keywords @ NL else [])"

definition unbroken_paper :: Paper where
  "unbroken_paper =
     \<lparr>title = ''T'', authors = ''A'', source = ''S'', url = ''u'',
      abstract = replicate 310 CHR ''a'', date = None, relevance_score = 1,
      matched_keywords = [], key_finding = []\<rparr>"

definition edge_paper :: Paper where
  "edge_paper =
     \<lparr>title = ''T'', authors = ''A'', source = ''S'', url = ''u'',
      abstract = replicate 300 CHR ''a'' @ '' '' @ replicate 9 CHR ''b'', date = None,
      relevance_score = 1, matched_keywords = [], key_finding = []\<rparr>"

text \<open>
  The report in closed form: the blocks a tier shows, a tier's section, one line of the
  keyword table.
\<close>

definition tier_blocks :: "Paper list \<Rightarrow> string list" where
  "tier_blocks tier = map format_paper (take 10 tier)"

definition tier_section :: "string \<Rightarrow> Paper list \<Rightarrow> string" where
  "tier_section heading tier = (if tier \<noteq> [] then heading @ concat (tier_blocks tier) else [])"

definition keyword_line :: "string \<times> nat \<Rightarrow> string" where
  "keyword_line kc = ''- '' @ fst kc @ '': '' @ str_nat (snd kc) @ '' papers'' @ NL"


definition report_day :: datetime where
  "report_day = \<lparr>year = 2025, month = 9, day = 1, hour = 8, minute = 30, second = 0\<rparr>"


section \<open>Scoring\<close>

text \<open>A keyword found in the lowercased title is found in the lowercased search text.\<close>

lemma str_in_title_text: "str_in k (lower t) \<Longrightarrow> str_in k (lower (t @ '' '' @ a))"
  unfolding str_in_def lower_def by (auto simp: sublist_append)

lemma relevance_loop_score:
  "snd (relevance_loop (lower (t @ '' '' @ a)) t ks (ms, s)) =
     s + (\<Sum>k\<leftarrow>ks. spec_contribution t a k)"
  by (induction ks arbitrary: ms s) (auto simp: spec_contribution_def dest: str_in_title_text)

lemma relevance_loop_matches:
  "fst (relevance_loop (lower (t @ '' '' @ a)) t ks (ms, s)) = ms @ filter (spec_matched t a) ks"
  by (induction ks arbitrary: ms s) (auto simp: spec_matched_def dest: str_in_title_text)

text \<open>The score after the call is the score before it plus the keywords' contributions.\<close>

lemma calculate_relevance_score:
  "relevance_score (calculate_relevance ks p) =
     relevance_score p + (\<Sum>k\<leftarrow>ks. spec_contribution (title p) (abstract p) k)"
  using relevance_loop_score [of "title p" "abstract p" ks "[]" "relevance_score p"]
  by (simp add: calculate_relevance_def Let_def case_prod_beta)

lemma calculate_relevance_matched:
  "matched_keywords (calculate_relevance ks p) =
     remdups (filter (spec_matched (title p) (abstract p)) ks)"
  using relevance_loop_matches [of "title p" "abstract p" ks "[]" "relevance_score p"]
  by (simp add: calculate_relevance_def Let_def case_prod_beta)

lemma calculate_relevance_text:
  "title (calculate_relevance ks p) = title p \<and> abstract (calculate_relevance ks p) = abstract p"
  by (simp add: calculate_relevance_def Let_def case_prod_beta)

text \<open>
  C1. For a paper whose score is 0 before the call and any keyword list,
  \<^verbatim>\<open>calculate_relevance\<close> sets the score to the sum over the list of each keyword's
  contribution (3 when it occurs in the lowercased title, 1 when it occurs only in the
  lowercased title-and-abstract text, 0 otherwise), and sets \<^verbatim>\<open>matched_keywords\<close> to
  the keywords that matched anywhere, each once. For the list rent, housing and the title
  "Rent Control and Housing Markets" with an empty abstract the score is 6 and both
  keywords are matched (the witness).
\<close>

theorem calculate_relevance_sum:
  "relevance_score paper = 0 \<Longrightarrow>
     relevance_score (calculate_relevance keywords paper) =
       (\<Sum>k\<leftarrow>keywords. spec_contribution (title paper) (abstract paper) k)
     \<and> set (matched_keywords (calculate_relevance keywords paper)) =
       set (filter (spec_matched (title paper) (abstract paper)) keywords)
     \<and> distinct (matched_keywords (calculate_relevance keywords paper))"
  by (simp add: calculate_relevance_score calculate_relevance_matched)

theorem calculate_relevance_sum_witness:
  "relevance_score rent_paper = 0
   \<and> relevance_score (calculate_relevance [''rent'', ''housing''] rent_paper) = 6
   \<and> set (matched_keywords (calculate_relevance [''rent'', ''housing''] rent_paper)) =
       {''rent'', ''housing''}"
proof -
  have h: "relevance_score rent_paper = 0"
    by (simp add: rent_paper_def)
  have s: "(\<Sum>k\<leftarrow>[''rent'', ''housing''].
              spec_contribution (title rent_paper) (abstract rent_paper) k) = 6"
    by code_simp
  have m: "filter (spec_matched (title rent_paper) (abstract rent_paper)) [''rent'', ''housing'']
             = [''rent'', ''housing'']"
    by code_simp
  from calculate_relevance_sum [OF h, of "[''rent'', ''housing'']"] h s m show ?thesis
    by simp
qed

text \<open>A second call adds the contributions a second time.\<close>

lemma calculate_relevance_twice:
  "relevance_score (calculate_relevance ks (calculate_relevance ks p)) =
     relevance_score p + 2 * (\<Sum>k\<leftarrow>ks. spec_contribution (title p) (abstract p) k)"
  by (simp add: calculate_relevance_score calculate_relevance_text)

text \<open>
  C3. The claim: scoring a paper a second time leaves the score of the first scoring.
  The code adds to the score the paper already has, so a second call adds the
  contributions again (\<open>calculate_relevance_twice\<close>). For the title "Rent" and the
  module's keyword list the first call gives 3 and the second 6.
\<close>

theorem calculate_relevance_twice_doubles:
  "relevance_score (calculate_relevance PRIORITY_KEYWORDS rent_only) = 3
   \<and> relevance_score
       (calculate_relevance PRIORITY_KEYWORDS (calculate_relevance PRIORITY_KEYWORDS rent_only)) = 6"
  by code_simp

text \<open>
  C4. The claim: a keyword listed twice contributes once. The module's list holds
  antitrust twice and the loop visits both entries: the title "Antitrust" scores 6, where
  the list without its duplicates gives 3; \<^verbatim>\<open>matched_keywords\<close> holds the keyword once.
\<close>

theorem duplicate_keyword_counts_twice:
  "count_list PRIORITY_KEYWORDS ''antitrust'' = 2
   \<and> relevance_score (calculate_relevance PRIORITY_KEYWORDS antitrust_paper) = 6
   \<and> relevance_score (calculate_relevance (remdups PRIORITY_KEYWORDS) antitrust_paper) = 3
   \<and> matched_keywords (calculate_relevance PRIORITY_KEYWORDS antitrust_paper) = [''antitrust'']"
  by code_simp

text \<open>
  C10. \<^verbatim>\<open>calculate_relevance\<close> changes only \<^verbatim>\<open>relevance_score\<close> and
  \<^verbatim>\<open>matched_keywords\<close>: title, authors, source, url, abstract, date and key finding of
  the result are those of the argument.
\<close>

theorem calculate_relevance_frame:
  "title (calculate_relevance keywords paper) = title paper
   \<and> authors (calculate_relevance keywords paper) = authors paper
   \<and> source (calculate_relevance keywords paper) = source paper
   \<and> url (calculate_relevance keywords paper) = url paper
   \<and> abstract (calculate_relevance keywords paper) = abstract paper
   \<and> date (calculate_relevance keywords paper) = date paper
   \<and> key_finding (calculate_relevance keywords paper) = key_finding paper"
  by (simp add: calculate_relevance_def Let_def case_prod_beta)

section \<open>Filtering and ranking\<close>

lemma sorted_reverse_mset: "mset (sorted_reverse key xs) = mset xs"
  by (simp add: sorted_reverse_def)

lemma sorted_reverse_sorted:
  "sorted_wrt (\<lambda>x y. key x \<ge> key y) (sorted_reverse key xs)"
proof -
  have "sorted (map key (sort_key key (rev xs)))"
    by simp
  then show ?thesis
    by (simp add: sorted_reverse_def sorted_wrt_rev sorted_map)
qed

text \<open>Elements with one key stand in the result as they stood in the input.\<close>

lemma sorted_reverse_stable:
  "filter (\<lambda>x. key x = k) (sorted_reverse key xs) = filter (\<lambda>x. key x = k) xs"
proof -
  have "filter (\<lambda>x. key x = k) (sorted_reverse key xs)
          = rev (filter (\<lambda>x. key x = k) (sort_key key (rev xs)))"
    by (simp add: sorted_reverse_def rev_filter)
  also have "\<dots> = rev (filter (\<lambda>x. key x = k) (rev xs))"
    by (simp only: sort_key_stable)
  also have "\<dots> = filter (\<lambda>x. key x = k) xs"
    by (simp add: rev_filter [symmetric])
  finally show ?thesis .
qed

text \<open>
  C2. For every list of papers and every threshold \<open>M\<close>, \<^verbatim>\<open>filter_and_rank\<close> returns
  exactly the papers with score at least \<open>M\<close> (as a multiset), in non-increasing order of
  score, and for each score \<open>k\<close> the papers of score \<open>k\<close> stand in the result in the order
  they had in the input.
\<close>

theorem filter_and_rank_correct:
  "mset (filter_and_rank papers M) = mset (filter (\<lambda>p. relevance_score p \<ge> M) papers)
   \<and> sorted_wrt (\<lambda>p q. relevance_score p \<ge> relevance_score q) (filter_and_rank papers M)
   \<and> (\<forall>k. filter (\<lambda>p. relevance_score p = k) (filter_and_rank papers M) =
            filter (\<lambda>p. relevance_score p = k) (filter (\<lambda>p. relevance_score p \<ge> M) papers))"
proof -
  let ?relevant = "filter (\<lambda>p. relevance_score p \<ge> M) papers"
  have a: "mset (sorted_reverse relevance_score ?relevant) = mset ?relevant"
    by (rule sorted_reverse_mset)
  have b: "sorted_wrt (\<lambda>p q. relevance_score p \<ge> relevance_score q)
             (sorted_reverse relevance_score ?relevant)"
    by (rule sorted_reverse_sorted)
  have c: "\<forall>k. filter (\<lambda>p. relevance_score p = k) (sorted_reverse relevance_score ?relevant) =
            filter (\<lambda>p. relevance_score p = k) ?relevant"
    by (intro allI sorted_reverse_stable)
  from a b c show ?thesis
    unfolding filter_and_rank_def Let_def by blast
qed

text \<open>Scores 3, 0, 7, 3 with threshold 1: the 7 first, then the two 3s in input order.\<close>

lemma filter_and_rank_example:
  "filter_and_rank [scored ''a'' 3, scored ''b'' 0, scored ''c'' 7, scored ''d'' 3] 1
     = [scored ''c'' 7, scored ''a'' 3, scored ''d'' 3]"
  by code_simp

section \<open>Tiers\<close>

text \<open>
  C5. For a non-empty list in which every paper has score at least 1, the three tiers
  partition the list: the papers are those of High, Medium and Other taken together, each
  occurrence once, and no paper is in two tiers.
\<close>

theorem tiers_partition:
  "papers \<noteq> [] \<Longrightarrow> \<forall>p\<in>set papers. relevance_score p \<ge> 1 \<Longrightarrow>
     mset papers = mset (high_relevance papers) + mset (medium_relevance papers)
                     + mset (other_relevant papers)
     \<and> set (high_relevance papers) \<inter> set (medium_relevance papers) = {}
     \<and> set (high_relevance papers) \<inter> set (other_relevant papers) = {}
     \<and> set (medium_relevance papers) \<inter> set (other_relevant papers) = {}"
proof -
  assume all: "\<forall>p\<in>set papers. relevance_score p \<ge> 1"
  then have "mset papers = mset (high_relevance papers) + mset (medium_relevance papers)
                     + mset (other_relevant papers)"
    unfolding high_relevance_def medium_relevance_def other_relevant_def
    by (induction papers) auto
  moreover have "set (high_relevance papers) \<inter> set (medium_relevance papers) = {}"
    "set (high_relevance papers) \<inter> set (other_relevant papers) = {}"
    "set (medium_relevance papers) \<inter> set (other_relevant papers) = {}"
    unfolding high_relevance_def medium_relevance_def other_relevant_def by auto
  ultimately show ?thesis by simp
qed

theorem tiers_partition_witness:
  "tier_example \<noteq> [] \<and> list_all (\<lambda>p. relevance_score p \<ge> 1) tier_example
   \<and> high_relevance tier_example = [scored ''a'' 7]
   \<and> medium_relevance tier_example = [scored ''b'' 3, scored ''c'' 3]
   \<and> other_relevant tier_example = [scored ''d'' 1]
   \<and> mset tier_example = mset (high_relevance tier_example) + mset (medium_relevance tier_example)
                     + mset (other_relevant tier_example)"
proof -
  have ne: "tier_example \<noteq> []"
    by (simp add: tier_example_def)
  have all: "\<forall>p\<in>set tier_example. relevance_score p \<ge> 1"
    by (simp add: tier_example_def scored_def)
  have tiers: "high_relevance tier_example = [scored ''a'' 7]"
    "medium_relevance tier_example = [scored ''b'' 3, scored ''c'' 3]"
    "other_relevant tier_example = [scored ''d'' 1]"
    by (simp_all add: tier_example_def scored_def high_relevance_def medium_relevance_def
        other_relevant_def)
  from tiers_partition [OF ne all] ne all tiers show ?thesis
    by (simp add: list_all_iff)
qed

section \<open>Formatting one paper\<close>

lemma rsplit1_head_last:
  assumes "sep \<in> set s"
  shows "\<exists>w. s = rsplit1_head sep s @ sep # w \<and> sep \<notin> set w"
proof -
  let ?d = "dropWhile (\<lambda>c. c \<noteq> sep) (rev s)"
  let ?t = "takeWhile (\<lambda>c. c \<noteq> sep) (rev s)"
  from assms have ne: "?d \<noteq> []"
    by (auto simp: dropWhile_eq_Nil_conv)
  then have "hd ?d = sep"
    using hd_dropWhile [of "\<lambda>c. c \<noteq> sep" "rev s"] by simp
  with ne have d: "?d = sep # tl ?d"
    by (cases ?d) auto
  have "rev s = ?t @ ?d"
    by simp
  then have "rev s = ?t @ sep # tl ?d"
    using d by simp
  then have "s = rev (tl ?d) @ sep # rev ?t"
    by (metis append.assoc append_Cons append_Nil rev.simps(2) rev_append rev_rev_ident)
  moreover have "sep \<notin> set (rev ?t)"
    by (auto dest: set_takeWhileD)
  ultimately show ?thesis
    using assms by (auto simp: rsplit1_head_def)
qed

lemma format_paper_abstract:
  "key_finding p = [] \<Longrightarrow> abstract p \<noteq> [] \<Longrightarrow>
     format_paper p = paper_heading p @ ''> '' @ abstract_excerpt (abstract p) @ NL @ keywords_line p @ NL"
  by (simp add: format_paper_def keywords_line_def Let_def)

lemma abstract_excerpt_last_space:
  assumes long: "length a > 300" and sp: "CHR '' '' \<in> set (take 300 a)"
  shows "\<exists>n<300. a ! n = CHR '' '' \<and> (\<forall>i. n < i \<and> i < 300 \<longrightarrow> a ! i \<noteq> CHR '' '')
           \<and> abstract_excerpt a = take n a @ ''...''"
proof -
  let ?s = "take 300 a"
  let ?e = "rsplit1_head CHR '' '' ?s"
  from rsplit1_head_last [OF sp] obtain w where
    s: "?s = ?e @ CHR '' '' # w" and w: "CHR '' '' \<notin> set w"
    by blast
  have len: "length ?s = 300"
    using long by simp
  have "length ?s = length (?e @ CHR '' '' # w)"
    by (rule arg_cong [OF s])
  with len have n: "length ?e + length w = 299"
    by simp
  have nth: "\<And>i. i < 300 \<Longrightarrow> a ! i = ?s ! i"
    by simp
  have e: "?e = take (length ?e) a"
  proof -
    have "take (length ?e) ?s = ?e"
      by (subst s) simp
    moreover have "take (length ?e) ?s = take (length ?e) a"
      using n by (simp add: min_def)
    ultimately show ?thesis by simp
  qed
  have at: "a ! length ?e = CHR '' ''"
  proof -
    have "?s ! length ?e = CHR '' ''"
      by (subst s) simp
    with nth [of "length ?e"] n show ?thesis by simp
  qed
  have after: "\<forall>i. length ?e < i \<and> i < 300 \<longrightarrow> a ! i \<noteq> CHR '' ''"
  proof (intro allI impI)
    fix i assume i: "length ?e < i \<and> i < 300"
    then have "?s ! i = w ! (i - length ?e - 1)"
      by (subst s) (auto simp: nth_append nth_Cons')
    moreover have "i - length ?e - 1 < length w"
      using i n by arith
    ultimately have "?s ! i \<in> set w"
      by simp
    with w nth [of i] i show "a ! i \<noteq> CHR '' ''"
      by auto
  qed
  have "abstract_excerpt a = ?e @ ''...''"
    using long by (simp add: abstract_excerpt_def Let_def)
  with e have "abstract_excerpt a = take (length ?e) a @ ''...''"
    by simp
  with at after n show ?thesis
    by (intro exI [of _ "length ?e"]) simp
qed

lemma abstract_excerpt_no_space:
  "length a > 300 \<Longrightarrow> CHR '' '' \<notin> set (take 300 a) \<Longrightarrow> abstract_excerpt a = take 300 a @ ''...''"
  by (simp add: abstract_excerpt_def Let_def rsplit1_head_def)

lemma abstract_excerpt_cut:
  assumes long: "length a > 300"
  shows "\<exists>n\<le>300. abstract_excerpt a = take n a @ ''...''
           \<and> (CHR '' '' \<in> set (take 301 a) \<longrightarrow>
                a ! n = CHR '' '' \<and> (\<forall>i. n < i \<and> i < 300 \<longrightarrow> a ! i \<noteq> CHR '' ''))
           \<and> (CHR '' '' \<in> set (take 300 a) \<longrightarrow> n < 300)"
proof (cases "CHR '' '' \<in> set (take 300 a)")
  case True
  from abstract_excerpt_last_space [OF long True] obtain n where
    "n < 300" "a ! n = CHR '' ''" "\<forall>i. n < i \<and> i < 300 \<longrightarrow> a ! i \<noteq> CHR '' ''"
    "abstract_excerpt a = take n a @ ''...''"
    by blast
  then show ?thesis
    by (intro exI [of _ n]) simp
next
  case False
  have ex: "abstract_excerpt a = take 300 a @ ''...''"
    by (rule abstract_excerpt_no_space [OF long False])
  have "take 301 a = take 300 a @ [a ! 300]"
    using take_Suc_conv_app_nth [of 300 a] long by simp
  with False have "CHR '' '' \<in> set (take 301 a) \<longrightarrow> a ! 300 = CHR '' ''"
    by auto
  with ex False show ?thesis
    by (intro exI [of _ 300]) auto
qed

text \<open>
  C6, as amended. For a paper with an empty key finding and an abstract of more than 300
  characters, the block shows the first \<open>n\<close> characters of the abstract, for some \<open>n\<close>
  of at most 300, followed by the ellipsis. When the first 301 characters of the abstract
  hold a space, the character after the cut is a space, so the cut is not inside a word,
  and no space stands between the cut and character 300; when the first 300 characters
  hold a space, fewer than 300 characters are shown.
\<close>

theorem format_paper_excerpt_cut:
  assumes "key_finding paper = []" and "length (abstract paper) > 300"
  shows "\<exists>n\<le>300.
           format_paper paper =
               paper_heading paper @ ''> '' @ take n (abstract paper) @ ''...'' @ NL
                 @ keywords_line paper @ NL
           \<and> (CHR '' '' \<in> set (take 301 (abstract paper)) \<longrightarrow>
                abstract paper ! n = CHR '' '' \<and> \<not> cut_mid_word (abstract paper) n
                \<and> (\<forall>i. n < i \<and> i < 300 \<longrightarrow> abstract paper ! i \<noteq> CHR '' ''))
           \<and> (CHR '' '' \<in> set (take 300 (abstract paper)) \<longrightarrow> n < 300)"
proof -
  from assms(2) have ne: "abstract paper \<noteq> []"
    by auto
  from abstract_excerpt_cut [OF assms(2)] obtain n where
    n: "n \<le> 300" and ex: "abstract_excerpt (abstract paper) = take n (abstract paper) @ ''...''"
    and sp: "CHR '' '' \<in> set (take 301 (abstract paper)) \<longrightarrow>
                abstract paper ! n = CHR '' ''
                \<and> (\<forall>i. n < i \<and> i < 300 \<longrightarrow> abstract paper ! i \<noteq> CHR '' '')"
    and lt: "CHR '' '' \<in> set (take 300 (abstract paper)) \<longrightarrow> n < 300"
    by blast
  have "format_paper paper =
               paper_heading paper @ ''> '' @ take n (abstract paper) @ ''...'' @ NL
                 @ keywords_line paper @ NL"
    using format_paper_abstract [OF assms(1) ne] ex by simp
  with n sp lt show ?thesis
    by (intro exI [of _ n]) (auto simp: cut_mid_word_def)
qed

theorem format_paper_excerpt_cut_witness:
  "key_finding edge_paper = [] \<and> length (abstract edge_paper) > 300
   \<and> CHR '' '' \<in> set (take 301 (abstract edge_paper))
   \<and> abstract edge_paper ! 300 = CHR '' ''
   \<and> \<not> cut_mid_word (abstract edge_paper) 300
   \<and> format_paper edge_paper =
        paper_heading edge_paper @ ''> '' @ replicate 300 CHR ''a'' @ ''...'' @ NL
          @ keywords_line edge_paper @ NL"
proof -
  have a: "abstract edge_paper = replicate 300 CHR ''a'' @ '' '' @ replicate 9 CHR ''b''"
    and k: "key_finding edge_paper = []"
    by (simp_all add: edge_paper_def)
  have l: "length (abstract edge_paper) > 300"
    by (simp add: a)
  have s: "CHR '' '' \<in> set (take 301 (abstract edge_paper))"
    by (simp add: a)
  from format_paper_excerpt_cut [OF k l] s obtain n where
    n: "n \<le> 300" "abstract edge_paper ! n = CHR '' ''" "\<not> cut_mid_word (abstract edge_paper) n"
    and f: "format_paper edge_paper =
               paper_heading edge_paper @ ''> '' @ take n (abstract edge_paper) @ ''...'' @ NL
                 @ keywords_line edge_paper @ NL"
    by blast
  from n(1,2) have "n = 300"
    by (auto simp: a nth_append nth_Cons' split: if_splits)
  with f n k l s show ?thesis
    by (simp add: a nth_append)
qed

text \<open>
  C6, as stated, fails: an abstract of 310 letters with no space is shown as its first 300
  letters and the ellipsis, a cut between two letters of one word.
\<close>

theorem format_paper_cut_mid_word:
  "key_finding unbroken_paper = [] \<and> length (abstract unbroken_paper) = 310
   \<and> format_paper unbroken_paper =
       paper_heading unbroken_paper @ ''> '' @ take 300 (abstract unbroken_paper) @ ''...'' @ NL @ NL
   \<and> cut_mid_word (abstract unbroken_paper) 300"
proof -
  have a: "abstract unbroken_paper = replicate 310 CHR ''a''" and k: "key_finding unbroken_paper = []"
    and m: "matched_keywords unbroken_paper = []"
    by (simp_all add: unbroken_paper_def)
  have "abstract_excerpt (abstract unbroken_paper) = take 300 (abstract unbroken_paper) @ ''...''"
    by (rule abstract_excerpt_no_space) (simp_all add: a)
  moreover have "keywords_line unbroken_paper = []"
    by (simp add: keywords_line_def m)
  moreover have "abstract unbroken_paper \<noteq> []"
    by (simp add: a)
  ultimately have "format_paper unbroken_paper =
       paper_heading unbroken_paper @ ''> '' @ take 300 (abstract unbroken_paper) @ ''...'' @ NL @ NL"
    using format_paper_abstract [OF k] by simp
  moreover have "cut_mid_word (abstract unbroken_paper) 300"
    by (simp add: cut_mid_word_def a)
  ultimately show ?thesis
    using k by (simp add: a)
qed

section \<open>The report\<close>

lemma append_papers_concat: "append_papers out ps = out @ concat (map format_paper ps)"
  by (induction ps arbitrary: out) simp_all

lemma append_keyword_lines_concat:
  "append_keyword_lines out kcs = out @ concat (map keyword_line kcs)"
  by (induction kcs arbitrary: out) (auto simp: keyword_line_def)

lemma generate_markdown_nonempty:
  "papers \<noteq> [] \<Longrightarrow>
     generate_markdown now papers days =
       report_header now days
       @ tier_section high_heading (high_relevance papers)
       @ tier_section medium_heading (medium_relevance papers)
       @ tier_section other_heading (other_relevant papers)
       @ summary_stats papers
       @ concat (map keyword_line (top_keywords papers))"
  by (simp add: generate_markdown_def Let_def tier_section_def tier_blocks_def
      append_papers_concat append_keyword_lines_concat)


lemma sublist_summary_stats:
  "papers \<noteq> [] \<Longrightarrow> sublist (summary_stats papers) (generate_markdown now papers days)"
  unfolding sublist_def
  by (intro exI [of _ "report_header now days
       @ tier_section high_heading (high_relevance papers)
       @ tier_section medium_heading (medium_relevance papers)
       @ tier_section other_heading (other_relevant papers)"]
      exI [of _ "concat (map keyword_line (top_keywords papers))"])
    (simp add: generate_markdown_nonempty)

lemma total_scanned_line:
  "sublist (''- **Total papers scanned:** '' @ str_nat (total_scanned papers) @ NL
            @ ''- **Relevant papers found:** '' @ str_nat (length papers) @ NL)
     (summary_stats papers)"
  unfolding sublist_def
  by (intro exI [of _ "NL @ ''---'' @ NL @ NL @ ''## Summary'' @ NL @ NL"]
      exI [of _ "''- **High priority:** '' @ str_nat (length (high_relevance papers)) @ NL @
     ''- **Sources checked:** '' @ str_nat (length SOURCES) @ NL @
     NL @ ''### Keywords Matched This Week'' @ NL"])
    (simp add: summary_stats_def)


text \<open>
  C7. For a non-empty list in which every paper has score at least 1, no paper has score 0,
  so the added term is zero and "Total papers scanned" equals \<^verbatim>\<open>len(papers)\<close>: the
  report prints the same number on the lines "Total papers scanned" and "Relevant papers
  found".
\<close>

theorem total_scanned_is_relevant_count:
  "papers \<noteq> [] \<Longrightarrow> \<forall>p\<in>set papers. relevance_score p \<ge> 1 \<Longrightarrow>
     filter (\<lambda>p. relevance_score p = 0) papers = []
     \<and> total_scanned papers = length papers
     \<and> sublist (''- **Total papers scanned:** '' @ str_nat (length papers) @ NL
                 @ ''- **Relevant papers found:** '' @ str_nat (length papers) @ NL)
          (generate_markdown now papers days)"
proof -
  assume ne: "papers \<noteq> []" and all: "\<forall>p\<in>set papers. relevance_score p \<ge> 1"
  from all have none: "filter (\<lambda>p. relevance_score p = 0) papers = []"
    by (auto simp: filter_empty_conv)
  then have total: "total_scanned papers = length papers"
    by (simp add: total_scanned_def)
  from total_scanned_line [of papers] sublist_summary_stats [OF ne, of now days]
  have "sublist (''- **Total papers scanned:** '' @ str_nat (total_scanned papers) @ NL
                 @ ''- **Relevant papers found:** '' @ str_nat (length papers) @ NL)
          (generate_markdown now papers days)"
    by (rule sublist_order.order_trans)
  with none total show ?thesis
    by simp
qed

theorem total_scanned_is_relevant_count_witness:
  "tier_example \<noteq> [] \<and> list_all (\<lambda>p. relevance_score p \<ge> 1) tier_example
   \<and> total_scanned tier_example = 4
   \<and> sublist (''- **Total papers scanned:** 4'' @ NL @ ''- **Relevant papers found:** 4'' @ NL)
        (generate_markdown report_day tier_example 7)"
proof -
  have ne: "tier_example \<noteq> []"
    by (simp add: tier_example_def)
  have all: "\<forall>p\<in>set tier_example. relevance_score p \<ge> 1"
    by (simp add: tier_example_def scored_def)
  have len: "length tier_example = 4"
    by (simp add: tier_example_def)
  have four: "str_nat 4 = ''4''"
    by code_simp
  from total_scanned_is_relevant_count [OF ne all, of report_day 7] ne all show ?thesis
    by (simp add: len four list_all_iff)
qed





section \<open>The report for an empty list\<close>





lemma month_name_values:
  "month_name m = [] \<or> month_name m = ''January'' \<or> month_name m = ''February''
   \<or> month_name m = ''March'' \<or> month_name m = ''April'' \<or> month_name m = ''May''
   \<or> month_name m = ''June'' \<or> month_name m = ''July'' \<or> month_name m = ''August''
   \<or> month_name m = ''September'' \<or> month_name m = ''October''
   \<or> month_name m = ''November'' \<or> month_name m = ''December''"
proof (cases "1 \<le> m \<and> m \<le> 12")
  case False
  then have "month_name m = []"
    unfolding month_name_def by (rule if_not_P)
  then show ?thesis
    by simp
next
  case True
  then have "m = 1 \<or> m = 2 \<or> m = 3 \<or> m = 4 \<or> m = 5 \<or> m = 6 \<or> m = 7 \<or> m = 8 \<or> m = 9
             \<or> m = 10 \<or> m = 11 \<or> m = 12"
    by arith
  then show ?thesis
    by (elim disjE) (simp_all add: month_name_def month_names_def)
qed






lemma month_name_letters: "set (month_name m) \<subseteq> set ''JFMASONDabceghilmnoprstuvy''"
  using month_name_values [of m] by (elim disjE) simp_all













end
